theory Spec2Isabelle
  imports Complex_Main "HOL-Library.AList"
begin

section \<open>Python values\<close>

text \<open>
  The builders of \<^verbatim>\<open>kubespawner/objects.py\<close> are dynamically typed. The scalar
  parameters whose truth value or integer conversion the code inspects are values of
  \<open>pyval\<close>. A finite float is the rational it denotes (the two zeros coincide: both
  are false and both convert to 0).
\<close>

datatype pyfloat = Finite rat | Infinity | NegInfinity | NaN

datatype pyval = PNone | PBool bool | PInt int | PFloat pyfloat | PStr string

text \<open>
  Opaque payloads (the \<^verbatim>\<open>data\<close> of a route, volumes, lifecycle hooks) are values of
  \<open>pydata\<close>. A \<^verbatim>\<open>dict\<close> is the list of its items in insertion order. A string is
  the list of its code points, all below 256. Float payloads are not part of this
  type: \<^verbatim>\<open>float.__repr__\<close> is outside the model.
\<close>

datatype pydata =
    DNone
  | DBool bool
  | DInt int
  | DStr string
  | DList "pydata list"
  | DTuple "pydata list"
  | DDict "(pydata \<times> pydata) list"

datatype py_error =
    TypeError string
  | ValueError string
  | OverflowError string
  | JSONDecodeError string

text \<open>\<^verbatim>\<open>bool(x)\<close>, the test of \<^verbatim>\<open>if x:\<close>.\<close>

fun truthy :: "pyval \<Rightarrow> bool" where
  "truthy PNone = False"
| "truthy (PBool b) = b"
| "truthy (PInt i) = (i \<noteq> 0)"
| "truthy (PFloat f) = (f \<noteq> Finite 0)"
| "truthy (PStr s) = (s \<noteq> [])"

subsection \<open>The builtin \<^verbatim>\<open>int\<close>\<close>

definition is_digit :: "char \<Rightarrow> bool" where
  "is_digit c = ((48::nat) \<le> of_char c \<and> of_char c \<le> (57::nat))"

definition digit_val :: "char \<Rightarrow> nat" where
  "digit_val c = of_char c - (48::nat)"

text \<open>
  The characters \<^verbatim>\<open>int\<close> strips from both ends of a string: tab, line feed,
  vertical tab, form feed, carriage return and space, and the two other spaces among
  the code points below 256, the next-line character 133 and the no-break space 160.
\<close>

definition is_space :: "char \<Rightarrow> bool" where
  "is_space c = (of_char c \<in> {9, 10, 11, 12, 13, 32, 133, 160 :: nat})"

definition strip :: "string \<Rightarrow> string" where
  "strip s = rev (dropWhile is_space (rev (dropWhile is_space s)))"

text \<open>
  Decimal digits, with single underscores allowed between two digits. The flag says
  whether the previous character was a digit.
\<close>

fun int_digits :: "bool \<Rightarrow> nat \<Rightarrow> string \<Rightarrow> nat option" where
  "int_digits prev acc [] = (if prev then Some acc else None)"
| "int_digits prev acc (c # cs) =
     (if is_digit c then int_digits True (acc * 10 + digit_val c) cs
      else if c = CHR ''_'' \<and> prev then int_digits False acc cs
      else None)"

definition invalid_literal :: py_error where
  "invalid_literal = ValueError ''invalid literal for int() with base 10''"

text \<open>\<^verbatim>\<open>int(s, 10)\<close> and \<^verbatim>\<open>int(s)\<close> for a string \<open>s\<close>.\<close>

definition int_of_str :: "string \<Rightarrow> py_error + int" where
  "int_of_str s =
     (case strip s of
        [] \<Rightarrow> Inl invalid_literal
      | c # cs \<Rightarrow>
          if c = CHR ''-'' then
            (case int_digits False 0 cs of
               None \<Rightarrow> Inl invalid_literal
             | Some n \<Rightarrow> Inr (- int n))
          else if c = CHR ''+'' then
            (case int_digits False 0 cs of
               None \<Rightarrow> Inl invalid_literal
             | Some n \<Rightarrow> Inr (int n))
          else
            (case int_digits False 0 (c # cs) of
               None \<Rightarrow> Inl invalid_literal
             | Some n \<Rightarrow> Inr (int n)))"

text \<open>Truncation towards zero, as \<^verbatim>\<open>int\<close> does on a float.\<close>

definition trunc_rat :: "rat \<Rightarrow> int" where
  "trunc_rat r = (if 0 \<le> r then \<lfloor>r\<rfloor> else - \<lfloor>- r\<rfloor>)"

fun py_int :: "pyval \<Rightarrow> py_error + int" where
  "py_int PNone =
     Inl (TypeError ''int() argument must be a string, a bytes-like object or a number'')"
| "py_int (PBool b) = Inr (if b then 1 else 0)"
| "py_int (PInt i) = Inr i"
| "py_int (PFloat (Finite r)) = Inr (trunc_rat r)"
| "py_int (PFloat NaN) = Inl (ValueError ''cannot convert float NaN to integer'')"
| "py_int (PFloat _) = Inl (OverflowError ''cannot convert float infinity to integer'')"
| "py_int (PStr s) = int_of_str s"

section \<open>The Kubernetes client models\<close>

text \<open>
  The classes of \<^verbatim>\<open>kubernetes.client.models\<close> are used as plain attribute holders:
  the code constructs \<^verbatim>\<open>V1Pod()\<close>, \<^verbatim>\<open>V1PodSpec()\<close> and \<^verbatim>\<open>V1Container()\<close> with
  no argument and assigns attributes afterwards. Each class is a record of the
  attributes the code assigns; an attribute never assigned is \<open>None\<close>.
\<close>

type_synonym 'v pydict = "(string \<times> 'v) list"

record V1ObjectMeta =
  meta_name :: "string option"
  meta_annotations :: "string pydict option"
  meta_labels :: "string pydict option"

record V1PodSecurityContext =
  fs_group :: "int option"
  run_as_user :: "int option"

record V1LocalObjectReference =
  ref_name :: "string option"

record V1ContainerPort =
  port_name :: "string option"
  container_port :: "int option"

record V1EnvVar =
  env_name :: "string option"
  env_value :: "string option"

record V1ResourceRequirements =
  res_requests :: "pyval pydict option"
  res_limits :: "pyval pydict option"

record V1Container =
  container_name :: "string option"
  container_image :: "string option"
  container_working_dir :: "string option"
  container_ports :: "V1ContainerPort list option"
  container_env :: "V1EnvVar list option"
  container_args :: "string list option"
  container_image_pull_policy :: "string option"
  container_lifecycle :: "pydata option"
  container_resources :: "V1ResourceRequirements option"
  container_volume_mounts :: "pydata list option"

record V1PodSpec =
  spec_security_context :: "V1PodSecurityContext option"
  spec_image_pull_secrets :: "V1LocalObjectReference list option"
  spec_node_selector :: "string pydict option"
  spec_containers :: "V1Container list option"
  spec_init_containers :: "pydata list option"
  spec_volumes :: "pydata list option"

record V1Pod =
  pod_kind :: "string option"
  pod_api_version :: "string option"
  pod_metadata :: "V1ObjectMeta option"
  pod_spec :: "V1PodSpec option"

record V1PersistentVolumeClaimSpec =
  pvc_access_modes :: "string list option"
  pvc_resources :: "V1ResourceRequirements option"

record V1PersistentVolumeClaim =
  pvc_kind :: "string option"
  pvc_api_version :: "string option"
  pvc_metadata :: "V1ObjectMeta option"
  pvc_spec :: "V1PersistentVolumeClaimSpec option"

text \<open>\<^verbatim>\<open>d[k] = v\<close> on a dict, and \<^verbatim>\<open>d.update(e)\<close>.\<close>

definition dict_set :: "string \<Rightarrow> 'v \<Rightarrow> 'v pydict \<Rightarrow> 'v pydict" where
  "dict_set k v d = AList.update k v d"

definition dict_update :: "'v pydict \<Rightarrow> 'v pydict \<Rightarrow> 'v pydict" where
  "dict_update e d = fold (\<lambda>(k, v). dict_set k v) e d"

definition dict_get :: "'v pydict \<Rightarrow> string \<Rightarrow> 'v option" where
  "dict_get d k = map_of d k"

definition dict_keys :: "'v pydict \<Rightarrow> string list" where
  "dict_keys d = map fst d"

section \<open>\<^verbatim>\<open>make_pod\<close>\<close>

text \<open>The security context of lines 118 to 123: each \<^verbatim>\<open>int\<close> may raise.\<close>

definition make_security_context ::
  "pyval \<Rightarrow> pyval \<Rightarrow> py_error + V1PodSecurityContext" where
  "make_security_context fs_gid run_as_uid =
     (let security_context = \<lparr>fs_group = None, run_as_user = None\<rparr> in
      case (if fs_gid \<noteq> PNone
            then (case py_int fs_gid of
                    Inl e \<Rightarrow> Inl e
                  | Inr g \<Rightarrow> Inr (security_context\<lparr>fs_group := Some g\<rparr>))
            else Inr security_context) of
        Inl e \<Rightarrow> Inl e
      | Inr security_context \<Rightarrow>
          if run_as_uid \<noteq> PNone
          then (case py_int run_as_uid of
                  Inl e \<Rightarrow> Inl e
                | Inr u \<Rightarrow> Inr (security_context\<lparr>run_as_user := Some u\<rparr>))
          else Inr security_context)"

text \<open>The resource requirements of lines 148 to 161.\<close>

definition make_resources ::
  "pyval \<Rightarrow> pyval \<Rightarrow> pyval \<Rightarrow> pyval \<Rightarrow> V1ResourceRequirements" where
  "make_resources cpu_limit cpu_guarantee mem_limit mem_guarantee =
     (let req0 = [];
          req1 = (if truthy cpu_guarantee then dict_set ''cpu'' cpu_guarantee req0 else req0);
          req2 = (if truthy mem_guarantee then dict_set ''memory'' mem_guarantee req1 else req1);
          lim0 = [];
          lim1 = (if truthy cpu_limit then dict_set ''cpu'' cpu_limit lim0 else lim0);
          lim2 = (if truthy mem_limit then dict_set ''memory'' mem_limit lim1 else lim1)
      in \<lparr>res_requests = Some req2, res_limits = Some lim2\<rparr>)"

definition make_pod ::
  "string \<Rightarrow> string \<Rightarrow> string \<Rightarrow> string option \<Rightarrow> int \<Rightarrow> string list \<Rightarrow>
   string pydict option \<Rightarrow> pyval \<Rightarrow> pyval \<Rightarrow> string pydict \<Rightarrow> string \<Rightarrow>
   pydata list \<Rightarrow> pydata list \<Rightarrow> string pydict \<Rightarrow>
   pyval \<Rightarrow> pyval \<Rightarrow> pyval \<Rightarrow> pyval \<Rightarrow> pydata \<Rightarrow> pydata list \<Rightarrow>
   py_error + V1Pod" where
  "make_pod name image_spec image_pull_policy image_pull_secret port cmd
            node_selector run_as_uid fs_gid env working_dir volumes volume_mounts labels
            cpu_limit cpu_guarantee mem_limit mem_guarantee lifecycle_hooks init_containers =
     (let metadata = \<lparr>meta_name = Some name, meta_annotations = None,
                      meta_labels = Some labels\<rparr>
      in case make_security_context fs_gid run_as_uid of
        Inl e \<Rightarrow> Inl e
      | Inr sc \<Rightarrow>
          let port' = \<lparr>port_name = Some ''notebook-port'', container_port = Some port\<rparr>;
              notebook_container =
                \<lparr>container_name = Some ''notebook'',
                 container_image = Some image_spec,
                 container_working_dir = Some working_dir,
                 container_ports = Some ([] @ [port']),
                 container_env =
                   Some (map (\<lambda>(k, v). \<lparr>env_name = Some k, env_value = Some v\<rparr>) env),
                 container_args = Some cmd,
                 container_image_pull_policy = Some image_pull_policy,
                 container_lifecycle = Some lifecycle_hooks,
                 container_resources =
                   Some (make_resources cpu_limit cpu_guarantee mem_limit mem_guarantee),
                 container_volume_mounts = Some volume_mounts\<rparr>;
              spec =
                \<lparr>spec_security_context = Some sc,
                 spec_image_pull_secrets =
                   (case image_pull_secret of
                      None \<Rightarrow> None
                    | Some s \<Rightarrow> Some ([] @ [\<lparr>ref_name = Some s\<rparr>])),
                 spec_node_selector =
                   (case node_selector of
                      None \<Rightarrow> None
                    | Some d \<Rightarrow> if d \<noteq> [] then Some d else None),
                 spec_containers = Some ([] @ [notebook_container]),
                 spec_init_containers = Some init_containers,
                 spec_volumes = Some volumes\<rparr>
          in Inr \<lparr>pod_kind = Some ''Pod'', pod_api_version = Some ''v1'',
                  pod_metadata = Some metadata, pod_spec = Some spec\<rparr>)"

section \<open>\<^verbatim>\<open>make_pvc\<close>\<close>

definition storage_class_key :: string where
  "storage_class_key = ''volume.beta.kubernetes.io/storage-class''"

definition make_pvc ::
  "string \<Rightarrow> string option \<Rightarrow> string list \<Rightarrow> pyval \<Rightarrow> string pydict \<Rightarrow>
   V1PersistentVolumeClaim" where
  "make_pvc name storage_class access_modes storage labels =
     (let annotations0 = [];
          annotations1 =
            (case storage_class of
               None \<Rightarrow> annotations0
             | Some s \<Rightarrow>
                 if s \<noteq> [] then dict_update [(storage_class_key, s)] annotations0
                 else annotations0);
          metadata = \<lparr>meta_name = Some name, meta_annotations = Some annotations1,
                      meta_labels = Some (dict_update labels [])\<rparr>;
          spec = \<lparr>pvc_access_modes = Some access_modes,
                  pvc_resources =
                    Some \<lparr>res_requests = Some [(''storage'', storage)], res_limits = None\<rparr>\<rparr>
      in \<lparr>pvc_kind = Some ''PersistentVolumeClaim'', pvc_api_version = Some ''v1'',
          pvc_metadata = Some metadata, pvc_spec = Some spec\<rparr>)"

section \<open>\<^verbatim>\<open>json.dumps\<close>\<close>

text \<open>
  \<^verbatim>\<open>json.dumps(data)\<close> with its default arguments: \<^verbatim>\<open>ensure_ascii=True\<close>, the item
  separator \<^verbatim>\<open>', '\<close> and the key separator \<^verbatim>\<open>': '\<close>, \<^verbatim>\<open>skipkeys=False\<close>.
  The recursion limit of the interpreter is not modelled.
\<close>

definition digit_char :: "nat \<Rightarrow> char" where
  "digit_char n = char_of (48 + n)"

fun str_nat :: "nat \<Rightarrow> string" where
  "str_nat n = (if n < 10 then [digit_char n] else str_nat (n div 10) @ [digit_char (n mod 10)])"

declare str_nat.simps [simp del]

text \<open>\<^verbatim>\<open>int.__repr__\<close>.\<close>

definition repr_int :: "int \<Rightarrow> string" where
  "repr_int i = (if i < 0 then CHR ''-'' # str_nat (nat (- i)) else str_nat (nat i))"

definition hex_char :: "nat \<Rightarrow> char" where
  "hex_char n = (if n < 10 then char_of (48 + n) else char_of (87 + n))"

text \<open>\<^verbatim>\<open>'\\u{0:04x}'.format(n)\<close> for a code point below 256.\<close>

definition u_escape :: "nat \<Rightarrow> string" where
  "u_escape n = [CHR 0x5C, CHR ''u'', CHR ''0'', CHR ''0'', hex_char (n div 16), hex_char (n mod 16)]"

text \<open>
  The replacement of one character by \<^verbatim>\<open>py_encode_basestring_ascii\<close>: the pattern
  \<^verbatim>\<open>([\\"]|[^\ -~])\<close> matches the backslash, the double quote and every character
  outside the printable ASCII range; \<^verbatim>\<open>ESCAPE_DCT\<close> gives the short escapes.
\<close>

definition escape_char :: "char \<Rightarrow> string" where
  "escape_char c =
     (let n = (of_char c :: nat) in
      if c = CHR 0x5C then [CHR 0x5C, CHR 0x5C]
      else if c = CHR 0x22 then [CHR 0x5C, CHR 0x22]
      else if 32 \<le> n \<and> n \<le> 126 then [c]
      else if n = 8 then [CHR 0x5C, CHR ''b'']
      else if n = 12 then [CHR 0x5C, CHR ''f'']
      else if n = 10 then [CHR 0x5C, CHR ''n'']
      else if n = 13 then [CHR 0x5C, CHR ''r'']
      else if n = 9 then [CHR 0x5C, CHR ''t'']
      else u_escape n)"

definition encode_basestring_ascii :: "string \<Rightarrow> string" where
  "encode_basestring_ascii s = [CHR 0x22] @ concat (map escape_char s) @ [CHR 0x22]"

text \<open>
  The conversion of a dict key by \<^verbatim>\<open>_iterencode_dict\<close>: a string is kept, \<^verbatim>\<open>True\<close>,
  \<^verbatim>\<open>False\<close>, \<^verbatim>\<open>None\<close> and integers become their JSON text, any other key raises.
\<close>

definition keys_must_be :: py_error where
  "keys_must_be = TypeError ''keys must be str, int, float, bool or None''"

fun json_key :: "pydata \<Rightarrow> py_error + string" where
  "json_key (DStr s) = Inr s"
| "json_key (DBool b) = Inr (if b then ''true'' else ''false'')"
| "json_key DNone = Inr ''null''"
| "json_key (DInt i) = Inr (repr_int i)"
| "json_key _ = Inl keys_must_be"

fun json_dumps :: "pydata \<Rightarrow> py_error + string"
  and dumps_items :: "pydata list \<Rightarrow> py_error + string"
  and dumps_pairs :: "(pydata \<times> pydata) list \<Rightarrow> py_error + string"
where
  "json_dumps DNone = Inr ''null''"
| "json_dumps (DBool b) = Inr (if b then ''true'' else ''false'')"
| "json_dumps (DInt i) = Inr (repr_int i)"
| "json_dumps (DStr s) = Inr (encode_basestring_ascii s)"
| "json_dumps (DList xs) =
     (if xs = [] then Inr ''[]''
      else case dumps_items xs of Inl e \<Rightarrow> Inl e | Inr t \<Rightarrow> Inr (''['' @ t @ '']''))"
| "json_dumps (DTuple xs) =
     (if xs = [] then Inr ''[]''
      else case dumps_items xs of Inl e \<Rightarrow> Inl e | Inr t \<Rightarrow> Inr (''['' @ t @ '']''))"
| "json_dumps (DDict ps) =
     (if ps = [] then Inr ''{}''
      else case dumps_pairs ps of Inl e \<Rightarrow> Inl e | Inr t \<Rightarrow> Inr (''{'' @ t @ ''}''))"
| "dumps_items [] = Inr []"
| "dumps_items (x # xs) =
     (case json_dumps x of
        Inl e \<Rightarrow> Inl e
      | Inr t \<Rightarrow>
          if xs = [] then Inr t
          else case dumps_items xs of Inl e \<Rightarrow> Inl e | Inr u \<Rightarrow> Inr (t @ '', '' @ u))"
| "dumps_pairs [] = Inr []"
| "dumps_pairs ((k, v) # ps) =
     (case json_key k of
        Inl e \<Rightarrow> Inl e
      | Inr ks \<Rightarrow>
          (case json_dumps v of
             Inl e \<Rightarrow> Inl e
           | Inr t \<Rightarrow>
               let item = encode_basestring_ascii ks @ '': '' @ t in
               if ps = [] then Inr item
               else case dumps_pairs ps of Inl e \<Rightarrow> Inl e | Inr u \<Rightarrow> Inr (item @ '', '' @ u)))"

section \<open>String methods\<close>

text \<open>\<^verbatim>\<open>s.find(c)\<close> for a single character; \<open>None\<close> stands for \<^verbatim>\<open>-1\<close>.\<close>

definition find_char :: "char \<Rightarrow> string \<Rightarrow> nat option" where
  "find_char c s = (if c \<in> set s then Some (length (takeWhile (\<lambda>x. x \<noteq> c) s)) else None)"

text \<open>\<^verbatim>\<open>s.rfind(c)\<close>.\<close>

definition rfind_char :: "char \<Rightarrow> string \<Rightarrow> nat option" where
  "rfind_char c s =
     (if c \<in> set s then Some (length s - 1 - length (takeWhile (\<lambda>x. x \<noteq> c) (rev s)))
      else None)"

text \<open>\<^verbatim>\<open>s.split(c, 1)\<close>: at most one split, at the first occurrence of \<open>c\<close>.\<close>

definition split1 :: "char \<Rightarrow> string \<Rightarrow> string list" where
  "split1 c s =
     (case find_char c s of
        None \<Rightarrow> [s]
      | Some i \<Rightarrow> [take i s, drop (i + 1) s])"

text \<open>\<^verbatim>\<open>s.partition(c)\<close> and \<^verbatim>\<open>s.rpartition(c)\<close>.\<close>

definition partition_char :: "char \<Rightarrow> string \<Rightarrow> string \<times> string \<times> string" where
  "partition_char c s =
     (case find_char c s of
        None \<Rightarrow> (s, [], [])
      | Some i \<Rightarrow> (take i s, [c], drop (i + 1) s))"

definition rpartition_char :: "char \<Rightarrow> string \<Rightarrow> string \<times> string \<times> string" where
  "rpartition_char c s =
     (case rfind_char c s of
        None \<Rightarrow> ([], [], s)
      | Some i \<Rightarrow> (take i s, [c], drop (i + 1) s))"

text \<open>\<^verbatim>\<open>s.lower()\<close> on code points below 256.\<close>

definition lower_char :: "char \<Rightarrow> char" where
  "lower_char c =
     (let n = (of_char c :: nat) in
      if (65 \<le> n \<and> n \<le> 90) \<or> (192 \<le> n \<and> n \<le> 222 \<and> n \<noteq> 215) then char_of (n + 32)
      else c)"

definition lower :: "string \<Rightarrow> string" where
  "lower s = map lower_char s"

text \<open>Unpacking \<^verbatim>\<open>a, b = xs\<close>.\<close>

fun unpack2 :: "'a list \<Rightarrow> py_error + 'a \<times> 'a" where
  "unpack2 [a, b] = Inr (a, b)"
| "unpack2 [] = Inl (ValueError ''not enough values to unpack (expected 2, got 0)'')"
| "unpack2 [a] = Inl (ValueError ''not enough values to unpack (expected 2, got 1)'')"
| "unpack2 _ = Inl (ValueError ''too many values to unpack (expected 2)'')"

section \<open>\<^verbatim>\<open>urllib.parse.urlparse\<close>\<close>

text \<open>
  The standard library's parser as of CPython 3.6, on \<^verbatim>\<open>str\<close> arguments and without
  its result cache.
\<close>

record ParseResult =
  url_scheme :: string
  url_netloc :: string
  url_path :: string
  url_params :: string
  url_query :: string
  url_fragment :: string

definition scheme_chars :: string where
  "scheme_chars = ''abcdefghijklmnopqrstuvwxyzABCDEFGHIJKLMNOPQRSTUVWXYZ0123456789+-.''"

definition uses_params :: "string list" where
  "uses_params = ['''', ''ftp'', ''hdl'', ''prospero'', ''http'', ''imap'',
                  ''https'', ''shttp'', ''rtsp'', ''rtspu'', ''sip'', ''sips'',
                  ''mms'', ''sftp'', ''tel'']"

text \<open>
  \<^verbatim>\<open>_splitnetloc(url, 2)\<close>: the domain runs from position 2 to the first of
  \<^verbatim>\<open>/\<close>, \<^verbatim>\<open>?\<close> and \<^verbatim>\<open>#\<close>, or to the end.
\<close>

definition splitnetloc :: "string \<Rightarrow> string \<times> string" where
  "splitnetloc url =
     (let is_delim = (\<lambda>c. c = CHR ''/'' \<or> c = CHR ''?'' \<or> c = CHR ''#'');
          delim = 2 + length (takeWhile (\<lambda>c. \<not> is_delim c) (drop 2 url))
      in (take (delim - 2) (drop 2 url), drop delim url))"

text \<open>
  The first part of \<^verbatim>\<open>urlsplit\<close>: the scheme and what follows it. A prefix before
  the first colon is a scheme when it is \<^verbatim>\<open>http\<close>, or when it consists of scheme
  characters and the rest is empty or not a port number.
\<close>

definition split_scheme :: "string \<Rightarrow> string \<times> string" where
  "split_scheme url =
     (case find_char CHR '':'' url of
        None \<Rightarrow> ('''', url)
      | Some i \<Rightarrow>
          if i > 0 then
            if take i url = ''http'' then (lower (take i url), drop (i + 1) url)
            else if list_all (\<lambda>c. c \<in> set scheme_chars) (take i url) then
              (let rest = drop (i + 1) url in
               if rest = [] \<or> list_ex (\<lambda>c. \<not> is_digit c) rest
               then (lower (take i url), rest)
               else ('''', url))
            else ('''', url)
          else ('''', url))"

definition urlsplit :: "string \<Rightarrow> py_error + ParseResult" where
  "urlsplit url0 =
     (let (scheme, url) = split_scheme url0;
          (netloc, url) =
            (if take 2 url = ''//'' then splitnetloc url else ('''', url))
      in if (CHR ''['' \<in> set netloc \<and> CHR '']'' \<notin> set netloc) \<or>
            (CHR '']'' \<in> set netloc \<and> CHR ''['' \<notin> set netloc)
         then Inl (ValueError ''Invalid IPv6 URL'')
         else
           let (url, fragment) =
                 (if CHR ''#'' \<in> set url
                  then (hd (split1 CHR ''#'' url), hd (tl (split1 CHR ''#'' url)))
                  else (url, ''''));
               (url, query) =
                 (if CHR ''?'' \<in> set url
                  then (hd (split1 CHR ''?'' url), hd (tl (split1 CHR ''?'' url)))
                  else (url, ''''))
           in Inr \<lparr>url_scheme = scheme, url_netloc = netloc, url_path = url,
                   url_params = '''', url_query = query, url_fragment = fragment\<rparr>)"

text \<open>\<^verbatim>\<open>_splitparams\<close>, called on a path that contains a semicolon.\<close>

definition splitparams :: "string \<Rightarrow> string \<times> string" where
  "splitparams url =
     (case rfind_char CHR ''/'' url of
        Some j \<Rightarrow>
          (case find_char CHR '';'' (drop j url) of
             None \<Rightarrow> (url, '''')
           | Some k \<Rightarrow> (take (j + k) url, drop (j + k + 1) url))
      | None \<Rightarrow>
          (case find_char CHR '';'' url of
             None \<Rightarrow> (url, '''')
           | Some i \<Rightarrow> (take i url, drop (i + 1) url)))"

definition urlparse :: "string \<Rightarrow> py_error + ParseResult" where
  "urlparse url =
     (case urlsplit url of
        Inl e \<Rightarrow> Inl e
      | Inr r \<Rightarrow>
          if url_scheme r \<in> set uses_params \<and> CHR '';'' \<in> set (url_path r)
          then (let (p, params) = splitparams (url_path r)
                in Inr (r\<lparr>url_path := p, url_params := params\<rparr>))
          else Inr r)"

text \<open>The property \<^verbatim>\<open>_hostinfo\<close>: the host name and the port text of the netloc.\<close>

definition hostinfo :: "ParseResult \<Rightarrow> string \<times> string option" where
  "hostinfo r =
     (let (_, _, hinfo) = rpartition_char CHR ''@'' (url_netloc r);
          (_, have_open_br, bracketed) = partition_char CHR ''['' hinfo;
          (hostname, port) =
            (if have_open_br \<noteq> [] then
               (let (hostname, _, port) = partition_char CHR '']'' bracketed;
                    (_, _, port) = partition_char CHR '':'' port
                in (hostname, port))
             else
               (let (hostname, _, port) = partition_char CHR '':'' hinfo
                in (hostname, port)))
      in (hostname, if port = [] then None else Some port))"

text \<open>The property \<^verbatim>\<open>hostname\<close>.\<close>

definition url_hostname :: "ParseResult \<Rightarrow> string option" where
  "url_hostname r =
     (let hostname = fst (hostinfo r) in
      if hostname = [] then None else Some (lower hostname))"

text \<open>The property \<^verbatim>\<open>port\<close>: it raises when the port text is no integer of the range.\<close>

definition url_port :: "ParseResult \<Rightarrow> py_error + int option" where
  "url_port r =
     (case snd (hostinfo r) of
        None \<Rightarrow> Inr None
      | Some p \<Rightarrow>
          (case int_of_str p of
             Inl e \<Rightarrow> Inl e
           | Inr n \<Rightarrow>
               if \<not> (0 \<le> n \<and> n \<le> 65535)
               then Inl (ValueError ''Port out of range 0-65535'')
               else Inr (Some n)))"

section \<open>\<^verbatim>\<open>make_ingress\<close>\<close>

record V1EndpointAddress =
  address_ip :: "string option"

record V1EndpointPort =
  endpoint_port :: "int option"

record V1EndpointSubset =
  subset_addresses :: "V1EndpointAddress list option"
  subset_ports :: "V1EndpointPort list option"

record V1Endpoints =
  endpoints_kind :: "string option"
  endpoints_metadata :: "V1ObjectMeta option"
  endpoints_subsets :: "V1EndpointSubset list option"

record V1ServicePort =
  service_port :: "int option"
  service_target_port :: "int option"

record V1ServiceSpec =
  service_ports :: "V1ServicePort list option"

record V1Service =
  service_kind :: "string option"
  service_metadata :: "V1ObjectMeta option"
  service_spec :: "V1ServiceSpec option"

record V1beta1IngressBackend =
  backend_service_name :: "string option"
  backend_service_port :: "int option"

record V1beta1HTTPIngressPath =
  ingress_path :: "string option"
  ingress_backend :: "V1beta1IngressBackend option"

record V1beta1HTTPIngressRuleValue =
  http_paths :: "V1beta1HTTPIngressPath list option"

record V1beta1IngressRule =
  rule_host :: "string option"
  rule_http :: "V1beta1HTTPIngressRuleValue option"

record V1beta1IngressSpec =
  ingress_rules :: "V1beta1IngressRule list option"

record V1beta1Ingress =
  ingress_kind :: "string option"
  ingress_metadata :: "V1ObjectMeta option"
  ingress_spec :: "V1beta1IngressSpec option"

text \<open>The metadata of lines 218 to 230, shared by the three objects.\<close>

definition route_meta :: "string \<Rightarrow> string \<Rightarrow> string \<Rightarrow> string \<Rightarrow> V1ObjectMeta" where
  "route_meta name routespec target dumped =
     \<lparr>meta_name = Some name,
      meta_annotations =
        Some [(''hub.jupyter.org/proxy-data'', dumped),
              (''hub.jupyter.org/proxy-routespec'', routespec),
              (''hub.jupyter.org/proxy-target'', target)],
      meta_labels =
        Some [(''heritage'', ''jupyterhub''),
              (''component'', ''singleuser-server''),
              (''hub.jupyter.org/proxy-route'', ''true'')]\<rparr>"

text \<open>The host and the path of lines 232 to 236.\<close>

definition split_routespec :: "string \<Rightarrow> py_error + string option \<times> string" where
  "split_routespec routespec =
     (if take 1 routespec = ''/'' then Inr (None, routespec)
      else case unpack2 (split1 CHR ''/'' routespec) of
             Inl e \<Rightarrow> Inl e
           | Inr (host, path) \<Rightarrow> Inr (Some host, path))"

definition make_ingress ::
  "string \<Rightarrow> string \<Rightarrow> string \<Rightarrow> pydata \<Rightarrow>
   py_error + V1Endpoints \<times> V1Service \<times> V1beta1Ingress" where
  "make_ingress name routespec target data =
     (case json_dumps data of
        Inl e \<Rightarrow> Inl e
      | Inr dumped \<Rightarrow>
     let meta = route_meta name routespec target dumped in
     case split_routespec routespec of
        Inl e \<Rightarrow> Inl e
      | Inr (host, path) \<Rightarrow>
     case urlparse target of
        Inl e \<Rightarrow> Inl e
      | Inr target_parts \<Rightarrow>
     let target_ip = url_hostname target_parts in
     case url_port target_parts of
        Inl e \<Rightarrow> Inl e
      | Inr target_port \<Rightarrow>
     let endpoint =
           \<lparr>endpoints_kind = Some ''Endpoints'',
            endpoints_metadata = Some meta,
            endpoints_subsets =
              Some [\<lparr>subset_addresses = Some [\<lparr>address_ip = target_ip\<rparr>],
                     subset_ports = Some [\<lparr>endpoint_port = target_port\<rparr>]\<rparr>]\<rparr>;
         service =
           \<lparr>service_kind = Some ''Service'',
            service_metadata = Some meta,
            service_spec =
              Some \<lparr>service_ports =
                      Some [\<lparr>service_port = target_port,
                             service_target_port = target_port\<rparr>]\<rparr>\<rparr>;
         ingress =
           \<lparr>ingress_kind = Some ''Ingress'',
            ingress_metadata = Some meta,
            ingress_spec =
              Some \<lparr>ingress_rules =
                      Some [\<lparr>rule_host = host,
                             rule_http =
                               Some \<lparr>http_paths =
                                       Some [\<lparr>ingress_path = Some path,
                                              ingress_backend =
                                                Some \<lparr>backend_service_name = Some name,
                                                      backend_service_port = target_port\<rparr>\<rparr>]\<rparr>\<rparr>]\<rparr>\<rparr>
     in Inr (endpoint, service, ingress))"

section \<open>\<^verbatim>\<open>json.loads\<close>\<close>

























section \<open>Payloads that JSON represents as they are\<close>





section \<open>Evaluation lemmas\<close>

lemma truthy_nonzero:
  "truthy v \<Longrightarrow>
   v \<noteq> PNone \<and> v \<noteq> PBool False \<and> v \<noteq> PInt 0 \<and> v \<noteq> PFloat (Finite 0) \<and> v \<noteq> PStr []"
  by (cases v) auto

lemma int_of_str_1000: "int_of_str ''1000'' = Inr 1000"
  by (simp add: int_of_str_def strip_def is_space_def is_digit_def digit_val_def)

lemma int_of_str_8000: "int_of_str ''8000'' = Inr 8000"
  by (simp add: int_of_str_def strip_def is_space_def is_digit_def digit_val_def)

lemma int_of_str_99999: "int_of_str ''99999'' = Inr 99999"
  by (simp add: int_of_str_def strip_def is_space_def is_digit_def digit_val_def)

lemma int_of_str_abc: "int_of_str ''abc'' = Inl invalid_literal"
  by (simp add: int_of_str_def strip_def is_space_def is_digit_def digit_val_def)

lemmas urlparse_eval =
  urlparse_def urlsplit_def split_scheme_def find_char_def splitnetloc_def
  lower_def lower_char_def uses_params_def

lemmas hostinfo_eval =
  hostinfo_def rpartition_char_def partition_char_def rfind_char_def find_char_def

lemma urlparse_8000:
  "urlparse ''http://10.0.0.5:8000'' =
     Inr \<lparr>url_scheme = ''http'', url_netloc = ''10.0.0.5:8000'', url_path = [],
          url_params = [], url_query = [], url_fragment = []\<rparr>"
  by (simp add: urlparse_eval)

lemma urlparse_99999:
  "urlparse ''http://10.0.0.5:99999'' =
     Inr \<lparr>url_scheme = ''http'', url_netloc = ''10.0.0.5:99999'', url_path = [],
          url_params = [], url_query = [], url_fragment = []\<rparr>"
  by (simp add: urlparse_eval)

lemma urlparse_abc:
  "urlparse ''http://10.0.0.5:abc'' =
     Inr \<lparr>url_scheme = ''http'', url_netloc = ''10.0.0.5:abc'', url_path = [],
          url_params = [], url_query = [], url_fragment = []\<rparr>"
  by (simp add: urlparse_eval)

lemma urlparse_noport:
  "urlparse ''http://10.0.0.5'' =
     Inr \<lparr>url_scheme = ''http'', url_netloc = ''10.0.0.5'', url_path = [],
          url_params = [], url_query = [], url_fragment = []\<rparr>"
  by (simp add: urlparse_eval)

lemma urlparse_bare:
  "urlparse ''10.0.0.5'' =
     Inr \<lparr>url_scheme = [], url_netloc = [], url_path = ''10.0.0.5'',
          url_params = [], url_query = [], url_fragment = []\<rparr>"
  by (simp add: urlparse_eval)

lemma urlparse_open_bracket:
  "urlparse ''http://[::1:8000'' = Inl (ValueError ''Invalid IPv6 URL'')"
  by (simp add: urlparse_eval)

lemma hostinfo_netloc_8000:
  "url_netloc r = ''10.0.0.5:8000'' \<Longrightarrow> hostinfo r = (''10.0.0.5'', Some ''8000'')"
  by (simp add: hostinfo_eval)

lemma hostinfo_netloc_99999:
  "url_netloc r = ''10.0.0.5:99999'' \<Longrightarrow> hostinfo r = (''10.0.0.5'', Some ''99999'')"
  by (simp add: hostinfo_eval)

lemma hostinfo_netloc_abc:
  "url_netloc r = ''10.0.0.5:abc'' \<Longrightarrow> hostinfo r = (''10.0.0.5'', Some ''abc'')"
  by (simp add: hostinfo_eval)

lemma hostinfo_netloc_noport:
  "url_netloc r = ''10.0.0.5'' \<Longrightarrow> hostinfo r = (''10.0.0.5'', None)"
  by (simp add: hostinfo_eval)

lemma hostinfo_netloc_empty:
  "url_netloc r = [] \<Longrightarrow> hostinfo r = ([], None)"
  by (simp add: hostinfo_eval)

lemma lower_ip: "lower ''10.0.0.5'' = ''10.0.0.5''"
  by (simp add: lower_def lower_char_def)

lemma host_port_8000:
  "url_netloc r = ''10.0.0.5:8000'' \<Longrightarrow>
   url_hostname r = Some ''10.0.0.5'' \<and> url_port r = Inr (Some 8000)"
  by (simp add: url_hostname_def url_port_def hostinfo_netloc_8000 lower_ip int_of_str_8000)

lemma host_port_99999:
  "url_netloc r = ''10.0.0.5:99999'' \<Longrightarrow>
   url_hostname r = Some ''10.0.0.5'' \<and>
   url_port r = Inl (ValueError ''Port out of range 0-65535'')"
  by (simp add: url_hostname_def url_port_def hostinfo_netloc_99999 lower_ip int_of_str_99999)

lemma host_port_abc:
  "url_netloc r = ''10.0.0.5:abc'' \<Longrightarrow>
   url_hostname r = Some ''10.0.0.5'' \<and> url_port r = Inl invalid_literal"
  by (simp add: url_hostname_def url_port_def hostinfo_netloc_abc lower_ip int_of_str_abc)

lemma host_port_noport:
  "url_netloc r = ''10.0.0.5'' \<Longrightarrow>
   url_hostname r = Some ''10.0.0.5'' \<and> url_port r = Inr None"
  by (simp add: url_hostname_def url_port_def hostinfo_netloc_noport lower_ip)

lemma host_port_empty:
  "url_netloc r = [] \<Longrightarrow> url_hostname r = None \<and> url_port r = Inr None"
  by (simp add: url_hostname_def url_port_def hostinfo_netloc_empty)

lemma takeWhile_upto:
  "c \<notin> set h \<Longrightarrow> takeWhile (\<lambda>x. x \<noteq> c) (h @ c # p) = h"
  by (induction h) auto

lemma find_char_found:
  "c \<notin> set h \<Longrightarrow> find_char c (h @ c # p) = Some (length h)"
  by (simp add: find_char_def takeWhile_upto)

lemma split1_found:
  "c \<notin> set h \<Longrightarrow> split1 c (h @ c # p) = [h, p]"
  by (simp add: split1_def find_char_found)

lemma split1_absent: "c \<notin> set s \<Longrightarrow> split1 c s = [s]"
  by (simp add: split1_def find_char_def)

lemma split_routespec_slash:
  "split_routespec (CHR ''/'' # p) = Inr (None, CHR ''/'' # p)"
  by (simp add: split_routespec_def)

lemma split_routespec_host:
  "h \<noteq> [] \<Longrightarrow> CHR ''/'' \<notin> set h \<Longrightarrow>
   split_routespec (h @ CHR ''/'' # p) = Inr (Some h, p)"
  using split1_found [of "CHR ''/''" h p] by (cases h) (auto simp: split_routespec_def)

lemma split_routespec_no_slash:
  "CHR ''/'' \<notin> set r \<Longrightarrow>
   split_routespec r = Inl (ValueError ''not enough values to unpack (expected 2, got 1)'')"
  by (cases r) (auto simp: split_routespec_def split1_absent)

section \<open>Integers and their decimal text\<close>





























section \<open>Strings and their escaped text\<close>








section \<open>Dicts with distinct keys\<close>




section \<open>Reading back what \<^verbatim>\<open>json.dumps\<close> wrote\<close>










section \<open>Properties of \<^verbatim>\<open>make_pod\<close>\<close>

text \<open>
  C4. Whenever \<^verbatim>\<open>make_pod\<close> returns a pod, its single container carries a resources
  object whose \<^verbatim>\<open>requests\<close> map has the key \<^verbatim>\<open>cpu\<close> iff \<^verbatim>\<open>cpu_guarantee\<close> is truthy
  (then with that value) and the key \<^verbatim>\<open>memory\<close> iff \<^verbatim>\<open>mem_guarantee\<close> is truthy, and
  whose \<^verbatim>\<open>limits\<close> map has \<^verbatim>\<open>cpu\<close> iff \<^verbatim>\<open>cpu_limit\<close> is truthy and \<^verbatim>\<open>memory\<close> iff
  \<^verbatim>\<open>mem_limit\<close> is truthy. The maps have no other key, and no entry is \<^verbatim>\<open>None\<close>, zero
  or the empty string.
\<close>

theorem make_pod_resources:
  assumes "make_pod name image_spec image_pull_policy image_pull_secret port cmd
            node_selector run_as_uid fs_gid env working_dir volumes volume_mounts labels
            cpu_limit cpu_guarantee mem_limit mem_guarantee lifecycle_hooks init_containers
           = Inr pod"
  shows "\<exists>spec c res req lim.
           pod_spec pod = Some spec \<and> spec_containers spec = Some [c] \<and>
           container_resources c = Some res \<and>
           res_requests res = Some req \<and> res_limits res = Some lim \<and>
           dict_get req ''cpu'' = (if truthy cpu_guarantee then Some cpu_guarantee else None) \<and>
           dict_get req ''memory'' = (if truthy mem_guarantee then Some mem_guarantee else None) \<and>
           dict_get lim ''cpu'' = (if truthy cpu_limit then Some cpu_limit else None) \<and>
           dict_get lim ''memory'' = (if truthy mem_limit then Some mem_limit else None) \<and>
           set (dict_keys req) \<subseteq> {''cpu'', ''memory''} \<and>
           set (dict_keys lim) \<subseteq> {''cpu'', ''memory''} \<and>
           (\<forall>v \<in> snd ` (set req \<union> set lim).
              truthy v \<and> v \<noteq> PNone \<and> v \<noteq> PInt 0 \<and> v \<noteq> PFloat (Finite 0) \<and> v \<noteq> PStr [])"
  using assms
  by (auto simp: make_pod_def make_resources_def dict_get_def dict_set_def dict_keys_def Let_def
           split: sum.splits dest: truthy_nonzero)

theorem make_pod_resources_witness:
  "\<exists>pod spec c res.
     make_pod ''jupyter-alice'' ''jupyter/base:latest'' ''IfNotPresent'' None 8888 [''start.sh'']
       None (PStr ''1000'') (PInt 100) [(''A'', ''b'')] ''/home'' [] [] [(''app'', ''jh'')]
       (PFloat (Finite 2)) PNone (PStr ''2Gi'') (PStr '''') DNone [] = Inr pod \<and>
     pod_spec pod = Some spec \<and> spec_containers spec = Some [c] \<and>
     container_resources c = Some res \<and>
     dict_get (the (res_requests res)) ''cpu'' = None \<and>
     dict_get (the (res_requests res)) ''memory'' = None \<and>
     dict_get (the (res_limits res)) ''cpu'' = Some (PFloat (Finite 2)) \<and>
     dict_get (the (res_limits res)) ''memory'' = Some (PStr ''2Gi'')"
proof -
  obtain pod where h:
    "make_pod ''jupyter-alice'' ''jupyter/base:latest'' ''IfNotPresent'' None 8888 [''start.sh'']
       None (PStr ''1000'') (PInt 100) [(''A'', ''b'')] ''/home'' [] [] [(''app'', ''jh'')]
       (PFloat (Finite 2)) PNone (PStr ''2Gi'') (PStr '''') DNone [] = Inr pod"
    by (simp add: make_pod_def make_security_context_def int_of_str_1000)
  from make_pod_resources [OF h] show ?thesis
    unfolding h by auto
qed

text \<open>
  C5. \<^verbatim>\<open>make_pod\<close> returns a pod exactly when each of \<^verbatim>\<open>fs_gid\<close> and \<^verbatim>\<open>run_as_uid\<close> is
  \<^verbatim>\<open>None\<close> or converts with \<^verbatim>\<open>int\<close>. The pod then always has a security context, and
  independently of each other \<^verbatim>\<open>fs_group\<close> is \<^verbatim>\<open>int(fs_gid)\<close> iff \<^verbatim>\<open>fs_gid\<close> is not
  \<^verbatim>\<open>None\<close> (unset otherwise) and \<^verbatim>\<open>run_as_user\<close> is \<^verbatim>\<open>int(run_as_uid)\<close> iff
  \<^verbatim>\<open>run_as_uid\<close> is not \<^verbatim>\<open>None\<close> (unset otherwise).
\<close>

theorem make_pod_security_context:
  "((\<exists>pod. make_pod name image_spec image_pull_policy image_pull_secret port cmd
            node_selector run_as_uid fs_gid env working_dir volumes volume_mounts labels
            cpu_limit cpu_guarantee mem_limit mem_guarantee lifecycle_hooks init_containers
           = Inr pod) \<longleftrightarrow>
      (fs_gid = PNone \<or> (\<exists>g. py_int fs_gid = Inr g)) \<and>
      (run_as_uid = PNone \<or> (\<exists>u. py_int run_as_uid = Inr u))) \<and>
   (\<forall>pod. make_pod name image_spec image_pull_policy image_pull_secret port cmd
            node_selector run_as_uid fs_gid env working_dir volumes volume_mounts labels
            cpu_limit cpu_guarantee mem_limit mem_guarantee lifecycle_hooks init_containers
           = Inr pod \<longrightarrow>
      (\<exists>spec sc.
         pod_spec pod = Some spec \<and> spec_security_context spec = Some sc \<and>
         (fs_gid = PNone \<longrightarrow> fs_group sc = None) \<and>
         (fs_gid \<noteq> PNone \<longrightarrow> (\<exists>g. py_int fs_gid = Inr g \<and> fs_group sc = Some g)) \<and>
         (run_as_uid = PNone \<longrightarrow> run_as_user sc = None) \<and>
         (run_as_uid \<noteq> PNone \<longrightarrow>
            (\<exists>u. py_int run_as_uid = Inr u \<and> run_as_user sc = Some u))))"
  by (auto simp: make_pod_def make_security_context_def Let_def split: sum.splits if_splits)

theorem make_pod_security_context_witness:
  "(\<exists>pod spec.
     make_pod ''jupyter-alice'' ''jupyter/base:latest'' ''IfNotPresent'' None 8888 [''start.sh'']
       None PNone PNone [] ''/home'' [] [] [] PNone PNone PNone PNone DNone [] = Inr pod \<and>
     pod_spec pod = Some spec \<and>
     spec_security_context spec = Some \<lparr>fs_group = None, run_as_user = None\<rparr>) \<and>
   (\<exists>pod spec.
     make_pod ''jupyter-alice'' ''jupyter/base:latest'' ''IfNotPresent'' None 8888 [''start.sh'']
       None PNone (PInt 100) [] ''/home'' [] [] [] PNone PNone PNone PNone DNone [] = Inr pod \<and>
     pod_spec pod = Some spec \<and>
     spec_security_context spec = Some \<lparr>fs_group = Some 100, run_as_user = None\<rparr>) \<and>
   (\<exists>pod spec.
     make_pod ''jupyter-alice'' ''jupyter/base:latest'' ''IfNotPresent'' None 8888 [''start.sh'']
       None (PStr ''1000'') PNone [] ''/home'' [] [] [] PNone PNone PNone PNone DNone [] = Inr pod \<and>
     pod_spec pod = Some spec \<and>
     spec_security_context spec = Some \<lparr>fs_group = None, run_as_user = Some 1000\<rparr>) \<and>
   (\<exists>pod spec.
     make_pod ''jupyter-alice'' ''jupyter/base:latest'' ''IfNotPresent'' None 8888 [''start.sh'']
       None (PStr ''1000'') (PInt 100) [] ''/home'' [] [] [] PNone PNone PNone PNone DNone [] = Inr pod \<and>
     pod_spec pod = Some spec \<and>
     spec_security_context spec = Some \<lparr>fs_group = Some 100, run_as_user = Some 1000\<rparr>)"
proof -
  have rec_eq: "sc = \<lparr>fs_group = fs_group sc, run_as_user = run_as_user sc\<rparr>"
    for sc :: V1PodSecurityContext
    by simp
  note t = make_pod_security_context
    [of "''jupyter-alice''" "''jupyter/base:latest''" "''IfNotPresent''" None 8888
        "[''start.sh'']" None _ _ "[]" "''/home''" "[]" "[]" "[]" PNone PNone PNone PNone DNone "[]"]
  have a: "\<exists>pod spec.
     make_pod ''jupyter-alice'' ''jupyter/base:latest'' ''IfNotPresent'' None 8888 [''start.sh'']
       None PNone PNone [] ''/home'' [] [] [] PNone PNone PNone PNone DNone [] = Inr pod \<and>
     pod_spec pod = Some spec \<and>
     spec_security_context spec = Some \<lparr>fs_group = None, run_as_user = None\<rparr>"
    using t [of PNone PNone] by (metis rec_eq)
  have b: "\<exists>pod spec.
     make_pod ''jupyter-alice'' ''jupyter/base:latest'' ''IfNotPresent'' None 8888 [''start.sh'']
       None PNone (PInt 100) [] ''/home'' [] [] [] PNone PNone PNone PNone DNone [] = Inr pod \<and>
     pod_spec pod = Some spec \<and>
     spec_security_context spec = Some \<lparr>fs_group = Some 100, run_as_user = None\<rparr>"
    using t [of PNone "PInt 100"] by (simp del: ex_simps) (metis rec_eq)
  have c: "\<exists>pod spec.
     make_pod ''jupyter-alice'' ''jupyter/base:latest'' ''IfNotPresent'' None 8888 [''start.sh'']
       None (PStr ''1000'') PNone [] ''/home'' [] [] [] PNone PNone PNone PNone DNone [] = Inr pod \<and>
     pod_spec pod = Some spec \<and>
     spec_security_context spec = Some \<lparr>fs_group = None, run_as_user = Some 1000\<rparr>"
    using t [of "PStr ''1000''" PNone] by (simp add: int_of_str_1000 del: ex_simps) (metis rec_eq)
  have d: "\<exists>pod spec.
     make_pod ''jupyter-alice'' ''jupyter/base:latest'' ''IfNotPresent'' None 8888 [''start.sh'']
       None (PStr ''1000'') (PInt 100) [] ''/home'' [] [] [] PNone PNone PNone PNone DNone [] = Inr pod \<and>
     pod_spec pod = Some spec \<and>
     spec_security_context spec = Some \<lparr>fs_group = Some 100, run_as_user = Some 1000\<rparr>"
    using t [of "PStr ''1000''" "PInt 100"] by (simp add: int_of_str_1000 del: ex_simps) (metis rec_eq)
  from a b c d show ?thesis by blast
qed

text \<open>
  C6. Whenever \<^verbatim>\<open>make_pod\<close> returns a pod: if \<^verbatim>\<open>image_pull_secret\<close> is \<^verbatim>\<open>None\<close>, the
  \<^verbatim>\<open>image_pull_secrets\<close> field of the pod spec is unset (not an empty list); if a
  secret name is given, the field is the list of exactly one reference, whose name is
  that secret.
\<close>

theorem make_pod_image_pull_secrets:
  assumes "make_pod name image_spec image_pull_policy image_pull_secret port cmd
            node_selector run_as_uid fs_gid env working_dir volumes volume_mounts labels
            cpu_limit cpu_guarantee mem_limit mem_guarantee lifecycle_hooks init_containers
           = Inr pod"
  shows "\<exists>spec.
           pod_spec pod = Some spec \<and>
           (image_pull_secret = None \<longrightarrow> spec_image_pull_secrets spec = None) \<and>
           (\<forall>s. image_pull_secret = Some s \<longrightarrow>
              spec_image_pull_secrets spec = Some [\<lparr>ref_name = Some s\<rparr>])"
  using assms
  by (auto simp: make_pod_def Let_def split: sum.splits if_splits)

theorem make_pod_image_pull_secrets_witness:
  "(\<exists>pod spec.
     make_pod ''jupyter-bob'' ''jupyter/base:latest'' ''Always'' None 8888 []
       None PNone PNone [] ''/home'' [] [] [] PNone PNone PNone PNone DNone [] = Inr pod \<and>
     pod_spec pod = Some spec \<and> spec_image_pull_secrets spec = None) \<and>
   (\<exists>pod spec.
     make_pod ''jupyter-bob'' ''jupyter/base:latest'' ''Always'' (Some ''regcred'') 8888 []
       None PNone PNone [] ''/home'' [] [] [] PNone PNone PNone PNone DNone [] = Inr pod \<and>
     pod_spec pod = Some spec \<and>
     spec_image_pull_secrets spec = Some [\<lparr>ref_name = Some ''regcred''\<rparr>])"
proof -
  obtain p1 where h1:
    "make_pod ''jupyter-bob'' ''jupyter/base:latest'' ''Always'' None 8888 []
       None PNone PNone [] ''/home'' [] [] [] PNone PNone PNone PNone DNone [] = Inr p1"
    by (simp add: make_pod_def make_security_context_def)
  obtain p2 where h2:
    "make_pod ''jupyter-bob'' ''jupyter/base:latest'' ''Always'' (Some ''regcred'') 8888 []
       None PNone PNone [] ''/home'' [] [] [] PNone PNone PNone PNone DNone [] = Inr p2"
    by (simp add: make_pod_def make_security_context_def)
  from make_pod_image_pull_secrets [OF h1] make_pod_image_pull_secrets [OF h2]
  show ?thesis unfolding h1 h2 by auto
qed

section \<open>Properties of \<^verbatim>\<open>make_pvc\<close>\<close>

text \<open>
  C8, at a storage class that is supplied but empty: the annotation mapping of the
  claim is initialised and has no storage-class key.
\<close>

theorem make_pvc_empty_storage_class:
  "pvc_metadata (make_pvc ''claim-alice'' (Some '''') [''ReadWriteOnce''] (PStr ''10Gi'') []) =
     Some \<lparr>meta_name = Some ''claim-alice'', meta_annotations = Some [],
           meta_labels = Some []\<rparr>"
  by (simp add: make_pvc_def dict_update_def)

text \<open>
  C8, amended. The annotation mapping of the claim built by \<^verbatim>\<open>make_pvc\<close> is always
  initialised. It has the key \<^verbatim>\<open>volume.beta.kubernetes.io/storage-class\<close> iff the
  storage class is truthy, that is neither \<^verbatim>\<open>None\<close> nor the empty string, and then
  with exactly the supplied value; it has no other key. So \<^verbatim>\<open>None\<close> gives an empty
  mapping and \<^verbatim>\<open>fast-ssd\<close> gives that value under the key.
\<close>

theorem make_pvc_annotations:
  "(\<exists>meta ann.
      pvc_metadata (make_pvc name storage_class access_modes storage labels) = Some meta \<and>
      meta_annotations meta = Some ann \<and>
      dict_get ann storage_class_key =
        (case storage_class of
           None \<Rightarrow> None
         | Some s \<Rightarrow> if s = [] then None else Some s) \<and>
      set (dict_keys ann) \<subseteq> {storage_class_key}) \<and>
   (\<exists>meta.
      pvc_metadata (make_pvc name None access_modes storage labels) = Some meta \<and>
      meta_annotations meta = Some []) \<and>
   (\<exists>meta.
      pvc_metadata (make_pvc name (Some ''fast-ssd'') access_modes storage labels) = Some meta \<and>
      meta_annotations meta = Some [(storage_class_key, ''fast-ssd'')])"
  by (auto simp: make_pvc_def dict_update_def dict_set_def dict_get_def dict_keys_def
           split: option.splits)

theorem make_pvc_annotations_witness:
  "\<exists>meta ann.
      pvc_metadata (make_pvc ''claim-alice'' (Some ''fast-ssd'') [''ReadWriteOnce'']
                      (PStr ''10Gi'') [(''app'', ''jupyterhub'')]) = Some meta \<and>
      meta_annotations meta = Some ann \<and>
      dict_get ann ''volume.beta.kubernetes.io/storage-class'' = Some ''fast-ssd''"
  using make_pvc_annotations
    [of "''claim-alice''" "Some ''fast-ssd''" "[''ReadWriteOnce'']" "PStr ''10Gi''"
        "[(''app'', ''jupyterhub'')]"]
  by (auto simp: storage_class_key_def)

section \<open>Properties of \<^verbatim>\<open>make_ingress\<close>\<close>

text \<open>
  C1, at the routespec \<^verbatim>\<open>example.com/foo\<close>: the host is \<^verbatim>\<open>example.com\<close> and the path of
  the ingress rule is \<^verbatim>\<open>foo\<close>, without the slash that separated it from the host,
  whereas the routespec \<^verbatim>\<open>/foo/bar\<close> has no host and keeps its leading slash.
\<close>

theorem make_ingress_host_route_path:
  "split_routespec ''example.com/foo'' = Inr (Some ''example.com'', ''foo'') \<and>
   split_routespec ''/foo/bar'' = Inr (None, ''/foo/bar'') \<and>
   (\<exists>ep svc ing.
      make_ingress ''jupyter-alice'' ''example.com/foo'' ''http://10.0.0.5:8000'' DNone =
        Inr (ep, svc, ing) \<and>
      ingress_spec ing =
        Some \<lparr>ingress_rules =
          Some [\<lparr>rule_host = Some ''example.com'',
                 rule_http =
                   Some \<lparr>http_paths =
                     Some [\<lparr>ingress_path = Some ''foo'',
                            ingress_backend =
                              Some \<lparr>backend_service_name = Some ''jupyter-alice'',
                                    backend_service_port = Some 8000\<rparr>\<rparr>]\<rparr>\<rparr>]\<rparr>)"
proof -
  have a: "split_routespec ''example.com/foo'' = Inr (Some ''example.com'', ''foo'')"
    using split_routespec_host [of "''example.com''" "''foo''"] by simp
  have b: "split_routespec ''/foo/bar'' = Inr (None, ''/foo/bar'')"
    by (rule split_routespec_slash)
  show ?thesis
    by (simp add: a b make_ingress_def Let_def urlparse_8000 host_port_8000)
qed

text \<open>
  C2, at the target \<^verbatim>\<open>http://10.0.0.5\<close>, a URL with a hostname and no port:
  \<^verbatim>\<open>make_ingress\<close> raises nothing and returns the three objects, the ports unset.
\<close>

theorem make_ingress_target_without_port:
  "make_ingress ''jupyter-alice'' ''/user/alice/'' ''http://10.0.0.5'' DNone =
     Inr (\<lparr>endpoints_kind = Some ''Endpoints'',
           endpoints_metadata =
             Some (route_meta ''jupyter-alice'' ''/user/alice/'' ''http://10.0.0.5'' ''null''),
           endpoints_subsets =
             Some [\<lparr>subset_addresses = Some [\<lparr>address_ip = Some ''10.0.0.5''\<rparr>],
                    subset_ports = Some [\<lparr>endpoint_port = None\<rparr>]\<rparr>]\<rparr>,
          \<lparr>service_kind = Some ''Service'',
           service_metadata =
             Some (route_meta ''jupyter-alice'' ''/user/alice/'' ''http://10.0.0.5'' ''null''),
           service_spec =
             Some \<lparr>service_ports =
                     Some [\<lparr>service_port = None, service_target_port = None\<rparr>]\<rparr>\<rparr>,
          \<lparr>ingress_kind = Some ''Ingress'',
           ingress_metadata =
             Some (route_meta ''jupyter-alice'' ''/user/alice/'' ''http://10.0.0.5'' ''null''),
           ingress_spec =
             Some \<lparr>ingress_rules =
               Some [\<lparr>rule_host = None,
                      rule_http =
                        Some \<lparr>http_paths =
                          Some [\<lparr>ingress_path = Some ''/user/alice/'',
                                 ingress_backend =
                                   Some \<lparr>backend_service_name = Some ''jupyter-alice'',
                                         backend_service_port = None\<rparr>\<rparr>]\<rparr>\<rparr>]\<rparr>\<rparr>)"
  by (simp add: make_ingress_def Let_def split_routespec_slash urlparse_noport host_port_noport)

text \<open>
  C2, amended. \<^verbatim>\<open>make_ingress\<close> returns no triple when \<^verbatim>\<open>urlparse\<close> rejects the target
  (an unbalanced bracket in the network location) or when reading the port raises
  (the port text is no integer between 0 and 65535); with data that serialises and a
  routespec that splits, it fails with that very error. A target without hostname or
  without port is not rejected: \<^verbatim>\<open>make_ingress\<close> then returns the three objects, the
  address or the port being \<^verbatim>\<open>None\<close>.
\<close>

theorem make_ingress_target_errors:
  "(\<forall>e. urlparse target = Inl e \<longrightarrow>
      (\<forall>x. make_ingress name routespec target data \<noteq> Inr x) \<and>
      (\<forall>dumped hp. json_dumps data = Inr dumped \<and> split_routespec routespec = Inr hp \<longrightarrow>
         make_ingress name routespec target data = Inl e)) \<and>
   (\<forall>parts e. urlparse target = Inr parts \<and> url_port parts = Inl e \<longrightarrow>
      (\<forall>x. make_ingress name routespec target data \<noteq> Inr x) \<and>
      (\<forall>dumped hp. json_dumps data = Inr dumped \<and> split_routespec routespec = Inr hp \<longrightarrow>
         make_ingress name routespec target data = Inl e)) \<and>
   (\<forall>parts port dumped hp.
      urlparse target = Inr parts \<and> url_port parts = Inr port \<and>
      json_dumps data = Inr dumped \<and> split_routespec routespec = Inr hp \<longrightarrow>
      (\<exists>ep svc ing.
         make_ingress name routespec target data = Inr (ep, svc, ing) \<and>
         endpoints_subsets ep =
           Some [\<lparr>subset_addresses = Some [\<lparr>address_ip = url_hostname parts\<rparr>],
                  subset_ports = Some [\<lparr>endpoint_port = port\<rparr>]\<rparr>]))"
  by (auto simp: make_ingress_def Let_def split: sum.splits prod.splits)

theorem make_ingress_target_errors_witness:
  "make_ingress ''jupyter-alice'' ''/user/alice/'' ''http://[::1:8000'' DNone =
     Inl (ValueError ''Invalid IPv6 URL'') \<and>
   make_ingress ''jupyter-alice'' ''/user/alice/'' ''http://10.0.0.5:99999'' DNone =
     Inl (ValueError ''Port out of range 0-65535'') \<and>
   (\<exists>ep svc ing.
      make_ingress ''jupyter-alice'' ''/user/alice/'' ''10.0.0.5'' DNone = Inr (ep, svc, ing) \<and>
      endpoints_subsets ep =
        Some [\<lparr>subset_addresses = Some [\<lparr>address_ip = None\<rparr>],
               subset_ports = Some [\<lparr>endpoint_port = None\<rparr>]\<rparr>])"
proof -
  have d: "json_dumps DNone = Inr ''null''" by simp
  have r: "split_routespec ''/user/alice/'' = Inr (None, ''/user/alice/'')"
    by (rule split_routespec_slash)
  have a: "make_ingress ''jupyter-alice'' ''/user/alice/'' ''http://[::1:8000'' DNone =
     Inl (ValueError ''Invalid IPv6 URL'')"
    using make_ingress_target_errors
      [of "''http://[::1:8000''" "''jupyter-alice''" "''/user/alice/''" DNone]
      urlparse_open_bracket d r
    by simp
  have b: "make_ingress ''jupyter-alice'' ''/user/alice/'' ''http://10.0.0.5:99999'' DNone =
     Inl (ValueError ''Port out of range 0-65535'')"
    using make_ingress_target_errors
      [of "''http://10.0.0.5:99999''" "''jupyter-alice''" "''/user/alice/''" DNone]
      urlparse_99999 d r
    by (simp add: host_port_99999)
  have c: "\<exists>ep svc ing.
      make_ingress ''jupyter-alice'' ''/user/alice/'' ''10.0.0.5'' DNone = Inr (ep, svc, ing) \<and>
      endpoints_subsets ep =
        Some [\<lparr>subset_addresses = Some [\<lparr>address_ip = None\<rparr>],
               subset_ports = Some [\<lparr>endpoint_port = None\<rparr>]\<rparr>]"
    using make_ingress_target_errors
      [of "''10.0.0.5''" "''jupyter-alice''" "''/user/alice/''" DNone]
      urlparse_bare d r
    by (simp add: host_port_empty)
  from a b c show ?thesis by blast
qed

text \<open>
  C3, at the routespec \<^verbatim>\<open>example.com\<close>, which has no slash: the split gives one part,
  the unpacking into host and path raises \<^verbatim>\<open>ValueError\<close>, and \<^verbatim>\<open>make_ingress\<close> does
  not return.
\<close>

theorem make_ingress_bare_host_raises:
  "make_ingress ''jupyter-alice'' ''example.com'' ''http://10.0.0.5:8000'' DNone =
     Inl (ValueError ''not enough values to unpack (expected 2, got 1)'')"
  by (simp add: make_ingress_def Let_def split_routespec_no_slash)

text \<open>
  C3, amended. For every routespec that contains no slash (so it does not start with
  one either), \<^verbatim>\<open>make_ingress\<close> does not return normally: once the data is serialised,
  unpacking the single part of the split raises \<^verbatim>\<open>ValueError\<close>. No host and no empty
  path are produced.
\<close>

theorem make_ingress_no_slash:
  assumes "CHR ''/'' \<notin> set routespec"
  shows "(\<forall>x. make_ingress name routespec target data \<noteq> Inr x) \<and>
         (\<forall>dumped. json_dumps data = Inr dumped \<longrightarrow>
            make_ingress name routespec target data =
              Inl (ValueError ''not enough values to unpack (expected 2, got 1)''))"
  using split_routespec_no_slash [OF assms]
  by (auto simp: make_ingress_def Let_def split: sum.splits)

theorem make_ingress_no_slash_witness:
  "CHR ''/'' \<notin> set ''hub.example.org'' \<and>
   make_ingress ''jupyter-bob'' ''hub.example.org'' ''http://10.0.0.7:8888'' (DStr ''bob'') =
     Inl (ValueError ''not enough values to unpack (expected 2, got 1)'')"
proof -
  have h: "CHR ''/'' \<notin> set ''hub.example.org''" by simp
  from make_ingress_no_slash [OF h, of "''jupyter-bob''" "''http://10.0.0.7:8888''" "DStr ''bob''"]
  show ?thesis by simp
qed

text \<open>
  C7. Whenever \<^verbatim>\<open>make_ingress\<close> returns, the Endpoints, the Service and the Ingress
  carry the same metadata: the name, the annotations holding the serialised data, the
  raw routespec and the raw target, and the three fixed proxy labels. All three refer
  to the port read from the target: the port of the Endpoints subset, the port of the
  Service (with itself as target port) and the service port of the Ingress backend.
  For the target \<^verbatim>\<open>http://10.0.0.5:8000\<close> the address is \<^verbatim>\<open>10.0.0.5\<close> and the port is
  8000 in all three.
\<close>

theorem make_ingress_shared_metadata_and_port:
  "(make_ingress name routespec target data = Inr (ep, svc, ing) \<longrightarrow>
      (\<exists>dumped parts port meta.
         json_dumps data = Inr dumped \<and> urlparse target = Inr parts \<and>
         url_port parts = Inr port \<and>
         endpoints_metadata ep = Some meta \<and> service_metadata svc = Some meta \<and>
         ingress_metadata ing = Some meta \<and>
         meta_name meta = Some name \<and>
         meta_annotations meta =
           Some [(''hub.jupyter.org/proxy-data'', dumped),
                 (''hub.jupyter.org/proxy-routespec'', routespec),
                 (''hub.jupyter.org/proxy-target'', target)] \<and>
         meta_labels meta =
           Some [(''heritage'', ''jupyterhub''),
                 (''component'', ''singleuser-server''),
                 (''hub.jupyter.org/proxy-route'', ''true'')] \<and>
         endpoints_subsets ep =
           Some [\<lparr>subset_addresses = Some [\<lparr>address_ip = url_hostname parts\<rparr>],
                  subset_ports = Some [\<lparr>endpoint_port = port\<rparr>]\<rparr>] \<and>
         service_spec svc =
           Some \<lparr>service_ports =
                   Some [\<lparr>service_port = port, service_target_port = port\<rparr>]\<rparr> \<and>
         (\<exists>host path.
            ingress_spec ing =
              Some \<lparr>ingress_rules =
                Some [\<lparr>rule_host = host,
                       rule_http =
                         Some \<lparr>http_paths =
                           Some [\<lparr>ingress_path = Some path,
                                  ingress_backend =
                                    Some \<lparr>backend_service_name = Some name,
                                          backend_service_port = port\<rparr>\<rparr>]\<rparr>\<rparr>]\<rparr>))) \<and>
   (make_ingress name routespec ''http://10.0.0.5:8000'' data = Inr (ep', svc', ing') \<longrightarrow>
      endpoints_subsets ep' =
        Some [\<lparr>subset_addresses = Some [\<lparr>address_ip = Some ''10.0.0.5''\<rparr>],
               subset_ports = Some [\<lparr>endpoint_port = Some 8000\<rparr>]\<rparr>] \<and>
      service_spec svc' =
        Some \<lparr>service_ports =
                Some [\<lparr>service_port = Some 8000, service_target_port = Some 8000\<rparr>]\<rparr> \<and>
      (\<exists>host path.
         ingress_spec ing' =
           Some \<lparr>ingress_rules =
             Some [\<lparr>rule_host = host,
                    rule_http =
                      Some \<lparr>http_paths =
                        Some [\<lparr>ingress_path = Some path,
                               ingress_backend =
                                 Some \<lparr>backend_service_name = Some name,
                                       backend_service_port = Some 8000\<rparr>\<rparr>]\<rparr>\<rparr>]\<rparr>))"
  (is "(?ret \<longrightarrow> ?shared) \<and> (?ret8000 \<longrightarrow> ?at8000)")
proof -
  have general: "?ret \<longrightarrow> ?shared"
    by (auto simp: make_ingress_def route_meta_def Let_def split: sum.splits prod.splits)
  have example: "?ret8000 \<longrightarrow> ?at8000"
    by (auto simp: make_ingress_def urlparse_8000 host_port_8000 Let_def
             split: sum.splits prod.splits)
  from general example show ?thesis by (rule conjI)
qed

theorem make_ingress_shared_metadata_and_port_witness:
  "\<exists>ep svc ing meta.
     make_ingress ''jupyter-alice'' ''/user/alice/'' ''http://10.0.0.5:8000''
       (DDict [(DStr ''user'', DStr ''alice'')]) = Inr (ep, svc, ing) \<and>
     endpoints_metadata ep = Some meta \<and> service_metadata svc = Some meta \<and>
     ingress_metadata ing = Some meta \<and>
     meta_name meta = Some ''jupyter-alice'' \<and>
     endpoints_subsets ep =
        Some [\<lparr>subset_addresses = Some [\<lparr>address_ip = Some ''10.0.0.5''\<rparr>],
               subset_ports = Some [\<lparr>endpoint_port = Some 8000\<rparr>]\<rparr>] \<and>
     service_spec svc =
        Some \<lparr>service_ports =
                Some [\<lparr>service_port = Some 8000, service_target_port = Some 8000\<rparr>]\<rparr>"
proof -
  obtain ep svc ing where h:
    "make_ingress ''jupyter-alice'' ''/user/alice/'' ''http://10.0.0.5:8000''
       (DDict [(DStr ''user'', DStr ''alice'')]) = Inr (ep, svc, ing)"
    by (simp add: make_ingress_def Let_def split_routespec_slash urlparse_8000 host_port_8000)
  from make_ingress_shared_metadata_and_port
         [of "''jupyter-alice''" "''/user/alice/''" "''http://10.0.0.5:8000''"
             "DDict [(DStr ''user'', DStr ''alice'')]" ep svc ing ep svc ing]
  show ?thesis unfolding h by auto
qed

text \<open>
  C10. The target \<^verbatim>\<open>http://10.0.0.5:abc\<close> has a hostname and a port text that is not
  a number. \<^verbatim>\<open>urlparse\<close> accepts it and its hostname is \<^verbatim>\<open>10.0.0.5\<close>, but reading the
  port raises \<^verbatim>\<open>ValueError\<close>, and so does \<^verbatim>\<open>make_ingress\<close>.
\<close>

theorem make_ingress_non_numeric_port:
  "(\<exists>parts.
      urlparse ''http://10.0.0.5:abc'' = Inr parts \<and>
      url_hostname parts = Some ''10.0.0.5'' \<and>
      url_port parts = Inl (ValueError ''invalid literal for int() with base 10'')) \<and>
   make_ingress ''jupyter-alice'' ''/user/alice/'' ''http://10.0.0.5:abc'' DNone =
     Inl (ValueError ''invalid literal for int() with base 10'')"
  by (simp add: make_ingress_def Let_def split_routespec_slash urlparse_abc host_port_abc
        invalid_literal_def)

section \<open>The data payload of a route\<close>




end
